theory Spec2Isabelle
  imports Main "HOL-Library.Sublist"
begin

section \<open>JavaScript values and errors\<close>

text \<open>
  The values that travel through the client are JSON documents: tool arguments, tool
  responses and expected values of tests. An object is the list of its members; a key is
  looked up from the front. Numbers carry an integer payload: the code under study only
  ever asks whether a number is zero (truthiness).
\<close>

datatype json =
    JNull
  | JBool bool
  | JNum int
  | JStr string
  | JArr "json list"
  | JObj "(string \<times> json) list"

text \<open>
  What the code can throw or reject with. \<open>ServerNotFoundError\<close> and
  \<open>ToolCallError\<close> are the two classes imported from \<^verbatim>\<open>common/errors.js\<close>, kept with
  their constructor arguments; \<open>Error\<close> is any other instance of \<^verbatim>\<open>Error\<close> with its
  message; \<open>Thrown\<close> is a value that is not an \<^verbatim>\<open>Error\<close>, recorded by what
  \<^verbatim>\<open>String(value)\<close> yields.
\<close>

datatype js_error =
    ServerNotFoundError string
  | ToolCallError string string string
  | Error string
  | Thrown string

text \<open>
  Built-ins and library pieces that are not part of the file under study, taken as
  parameters: \<^verbatim>\<open>JSON.parse\<close> (applied to its argument as passed; \<open>None\<close> is the
  \<^verbatim>\<open>SyntaxError\<close>), \<^verbatim>\<open>JSON.stringify\<close>, \<^verbatim>\<open>new RegExp(v).test(s)\<close> (the constructor
  may throw), \<^verbatim>\<open>String(e)\<close> on an error object, and the message texts that the two
  error classes of \<^verbatim>\<open>common/errors.js\<close> build from their constructor arguments.
\<close>

record lib =
  JSON_parse :: "json \<Rightarrow> json option"
  JSON_stringify :: "json \<Rightarrow> string"
  RegExp_test :: "json \<Rightarrow> string \<Rightarrow> js_error + bool"
  String_of_error :: "js_error \<Rightarrow> string"
  ServerNotFoundError_message :: "string \<Rightarrow> string"
  ToolCallError_message :: "string \<Rightarrow> string \<Rightarrow> string \<Rightarrow> string"

text \<open>\<^verbatim>\<open>error instanceof Error\<close>\<close>

fun instanceof_Error :: "js_error \<Rightarrow> bool" where
  "instanceof_Error (Thrown s) = False"
| "instanceof_Error e = True"

text \<open>\<^verbatim>\<open>error instanceof ServerNotFoundError\<close>\<close>

fun instanceof_ServerNotFoundError :: "js_error \<Rightarrow> bool" where
  "instanceof_ServerNotFoundError (ServerNotFoundError n) = True"
| "instanceof_ServerNotFoundError e = False"

text \<open>The \<^verbatim>\<open>message\<close> property of an error object.\<close>

fun message_of :: "lib \<Rightarrow> js_error \<Rightarrow> string" where
  "message_of L (ServerNotFoundError n) = ServerNotFoundError_message L n"
| "message_of L (ToolCallError s t m) = ToolCallError_message L s t m"
| "message_of L (Error m) = m"
| "message_of L (Thrown s) = []"

text \<open>\<^verbatim>\<open>error instanceof Error ? error.message : String(error)\<close>\<close>

fun error_text :: "lib \<Rightarrow> js_error \<Rightarrow> string" where
  "error_text L (Thrown s) = s"
| "error_text L e = message_of L e"

text \<open>
  The SDK's \<^verbatim>\<open>client.callTool\<close> may reject with any value, and the \<^verbatim>\<open>catch\<close> of
  \<^verbatim>\<open>callTool\<close> receives it as it is. Besides the errors above, which all carry a text,
  that can be an \<^verbatim>\<open>Error\<close> whose \<^verbatim>\<open>message\<close> is not a string (\<^verbatim>\<open>undefined\<close>,
  \<^verbatim>\<open>null\<close>, or a value without an \<^verbatim>\<open>includes\<close> method, such as a number), and a
  value that is not an \<^verbatim>\<open>Error\<close> and that \<^verbatim>\<open>String(value)\<close> cannot convert (an object
  whose conversion to a primitive throws). A message that is not a string but has an
  \<^verbatim>\<open>includes\<close> method of its own (an array) is left out.
\<close>

datatype odd_message =
    Message_undefined
  | Message_null
  | Message_without_includes

datatype caught =
    Caught js_error
  | Caught_odd_Error odd_message
  | Caught_unconvertible

text \<open>
  The \<^verbatim>\<open>TypeError\<close> of \<^verbatim>\<open>error.message.includes(...)\<close> on such a message, and the one
  of \<^verbatim>\<open>String(error)\<close> on a value it cannot convert.
\<close>

fun includes_TypeError :: "odd_message \<Rightarrow> js_error" where
  "includes_TypeError Message_undefined =
     Error (''Cannot read properties of undefined (reading '' @ [CHR 0x27] @ ''includes''
            @ [CHR 0x27] @ '')'')"
| "includes_TypeError Message_null =
     Error (''Cannot read properties of null (reading '' @ [CHR 0x27] @ ''includes''
            @ [CHR 0x27] @ '')'')"
| "includes_TypeError Message_without_includes =
     Error ''error.message.includes is not a function''"

definition String_TypeError :: js_error where
  "String_TypeError = Error ''Cannot convert object to primitive value''"

text \<open>\<^verbatim>\<open>haystack.includes(needle)\<close> on strings.\<close>

fun str_includes :: "string \<Rightarrow> string \<Rightarrow> bool" where
  "str_includes [] needle = (needle = [])"
| "str_includes (c # cs) needle = (prefix needle (c # cs) \<or> str_includes cs needle)"

text \<open>Truthiness of a JSON value, as \<^verbatim>\<open>if (v)\<close> and \<^verbatim>\<open>v && ...\<close> test it.\<close>

fun truthy :: "json \<Rightarrow> bool" where
  "truthy JNull = False"
| "truthy (JBool b) = b"
| "truthy (JNum n) = (n \<noteq> 0)"
| "truthy (JStr s) = (s \<noteq> [])"
| "truthy (JArr xs) = True"
| "truthy (JObj kvs) = True"

text \<open>
  The property read \<^verbatim>\<open>v.k\<close> on a value that is not \<^verbatim>\<open>null\<close>, for the keys the code
  reads (\<^verbatim>\<open>content\<close>, \<^verbatim>\<open>type\<close>, \<^verbatim>\<open>text\<close>): none of them is a built-in property
  of a boolean, number, string or array, so only an object can have one. \<open>None\<close> is
  \<^verbatim>\<open>undefined\<close>. The read on \<^verbatim>\<open>null\<close> throws and is written out where it can happen.
\<close>

fun get_prop :: "json \<Rightarrow> string \<Rightarrow> json option" where
  "get_prop (JObj kvs) k = map_of kvs k"
| "get_prop v k = None"

text \<open>Truthiness of a property read: \<^verbatim>\<open>undefined\<close> is falsy.\<close>

fun truthy_opt :: "json option \<Rightarrow> bool" where
  "truthy_opt None = False"
| "truthy_opt (Some v) = truthy v"

text \<open>\<^verbatim>\<open>Array.isArray(v)\<close> on a property read.\<close>

fun isArray :: "json option \<Rightarrow> bool" where
  "isArray (Some (JArr xs)) = True"
| "isArray v = False"

section \<open>Result normalization of \<^verbatim>\<open>callTool\<close>\<close>

text \<open>
  \<^verbatim>\<open>response.content.find((item) => item.type === 'text')\<close>: the first item whose
  \<^verbatim>\<open>type\<close> is the string \<^verbatim>\<open>text\<close>. Reading \<^verbatim>\<open>type\<close> of a \<^verbatim>\<open>null\<close> item throws a
  \<^verbatim>\<open>TypeError\<close>, which leaves the search.
\<close>

fun find_text :: "json list \<Rightarrow> js_error + json option" where
  "find_text [] = Inr None"
| "find_text (item # items) =
     (if item = JNull then Inl (Error (''Cannot read properties of null (reading '' @ [CHR 0x27] @ ''type'' @ [CHR 0x27] @ '')''))
      else if get_prop item ''type'' = Some (JStr ''text'') then Inr (Some item)
      else find_text items)"

text \<open>
  The block "Extract the result from the response" of \<^verbatim>\<open>callTool\<close>:
  \<^verbatim>\<open>
  let result = response;
  if (response && response.content && Array.isArray(response.content)) {
    const textContent = response.content.find((item) => item.type === 'text');
    if (textContent && textContent.text) {
      try { result = JSON.parse(textContent.text); }
      catch (e) { result = textContent.text; }
    }
  }
  \<close>
  \<open>Inl\<close> is the \<^verbatim>\<open>TypeError\<close> that escapes the block.
\<close>

definition extract_result :: "lib \<Rightarrow> json \<Rightarrow> js_error + json" where
  "extract_result L response =
     (if truthy response \<and> truthy_opt (get_prop response ''content'')
         \<and> isArray (get_prop response ''content'')
      then (case get_prop response ''content'' of
              Some (JArr items) \<Rightarrow>
                (case find_text items of
                   Inl e \<Rightarrow> Inl e
                 | Inr None \<Rightarrow> Inr response
                 | Inr (Some textContent) \<Rightarrow>
                     (if truthy textContent \<and> truthy_opt (get_prop textContent ''text'')
                      then (case get_prop textContent ''text'' of
                              Some t \<Rightarrow>
                                (case JSON_parse L t of
                                   Some v \<Rightarrow> Inr v
                                 | None \<Rightarrow> Inr t)
                            | None \<Rightarrow> Inr response)
                      else Inr response))
            | _ \<Rightarrow> Inr response)
      else Inr response)"

section \<open>The SSE transport\<close>

text \<open>
  The fields of \<^verbatim>\<open>class SSETransport\<close> that its methods read or write. The
  \<^verbatim>\<open>EventSource\<close> object is known by the address it was opened on; \<open>None\<close> is
  \<^verbatim>\<open>null\<close>. \<^verbatim>\<open>messageQueue\<close> and \<^verbatim>\<open>onmessage\<close> are left out: no method modelled
  here touches them.

  \<open>onclose\<close> and \<open>onerror\<close> are the handlers the owner of the transport installs
  (\<open>None\<close>: not set). A handler is foreign code; what matters to the transport is
  whether a call of it returns or throws, which is what \<open>callback\<close> records. A handler
  does not write the transport's own fields.
\<close>

datatype event_source = EventSource string

datatype callback = Callback "js_error option"

record SSETransport =
  eventSource :: "event_source option"
  connected :: bool
  serverUrl :: string
  serverName :: string
  reconnectAttempts :: nat
  maxReconnectAttempts :: nat
  reconnectDelay :: nat
  onclose :: "callback option"
  onerror :: "callback option"

text \<open>The field initialisers and the constructor.\<close>

definition new_SSETransport :: "string \<Rightarrow> string \<Rightarrow> SSETransport" where
  "new_SSETransport sname surl =
     \<lparr> eventSource = None, connected = False, serverUrl = surl, serverName = sname,
       reconnectAttempts = 0, maxReconnectAttempts = 3, reconnectDelay = 1000,
       onclose = None, onerror = None \<rparr>"

text \<open>Calling a handler: \<open>None\<close> when it returns, the error when it throws.\<close>

fun invoke :: "callback \<Rightarrow> js_error option" where
  "invoke (Callback r) = r"

text \<open>
  What a method does that is seen from outside the transport: the handler calls it makes,
  and the time it waits before a reconnection.
\<close>

datatype effect =
    Sleep nat
  | Call_onclose
  | Call_onerror js_error

text \<open>Decimal digits of a number, for \<^verbatim>\<open>${this.maxReconnectAttempts}\<close> in a message.\<close>

fun show_nat :: "nat \<Rightarrow> string" where
  "show_nat n =
     (if n < 10 then [''0123456789'' ! n]
      else show_nat (n div 10) @ [''0123456789'' ! (n mod 10)])"

declare show_nat.simps [simp del]

text \<open>
  \<^verbatim>\<open>start()\<close>. The method resets \<^verbatim>\<open>reconnectAttempts\<close>, constructs the
  \<^verbatim>\<open>EventSource\<close>, installs the stream handlers and returns a promise that the stream's
  \<^verbatim>\<open>onopen\<close> resolves (setting \<^verbatim>\<open>connected\<close>) and a 5 s timer rejects. The network
  decides which; that is the outcome given to the model. \<open>Constructor_threw\<close> is the
  constructor throwing, which the method's \<^verbatim>\<open>catch\<close> logs and throws again.
\<close>

datatype start_outcome =
    Opened
  | Timed_out
  | Constructor_threw js_error

definition start :: "start_outcome \<Rightarrow> SSETransport \<Rightarrow> (js_error + unit) \<times> SSETransport" where
  "start outcome t =
     (let t0 = t\<lparr>reconnectAttempts := 0\<rparr> in
      case outcome of
        Constructor_threw e \<Rightarrow> (Inl e, t0)
      | Opened \<Rightarrow>
          (Inr (), t0\<lparr>eventSource := Some (EventSource (serverUrl t0)), connected := True\<rparr>)
      | Timed_out \<Rightarrow>
          (Inl (Error (''Timeout connecting to SSE server '' @ serverName t0)),
           t0\<lparr>eventSource := Some (EventSource (serverUrl t0))\<rparr>))"

text \<open>
  The report the stream handler makes to the owner when it gives up reconnecting:
  \<^verbatim>\<open>this.onerror(new Error(`SSE connection failed after ${this.maxReconnectAttempts} attempts`))\<close>.
\<close>

definition fatal_report :: "SSETransport \<Rightarrow> effect" where
  "fatal_report t = Call_onerror (Error (''SSE connection failed after ''
                                     @ show_nat (maxReconnectAttempts t) @ '' attempts''))"

text \<open>
  The stream's \<^verbatim>\<open>onerror\<close> handler that \<^verbatim>\<open>start()\<close> installs:
  \<^verbatim>\<open>
  if (this.reconnectAttempts < this.maxReconnectAttempts) {
    this.reconnectAttempts++;
    const delay = this.reconnectDelay * Math.pow(2, this.reconnectAttempts - 1);
    if (this.eventSource) { this.eventSource.close(); this.eventSource = null; }
    await new Promise(resolve => setTimeout(resolve, delay));
    try { await this.start(); }
    catch (reconnectError) {
      if (this.onerror) this.onerror(new Error(`Failed to reconnect to SSE server: ${reconnectError}`));
    }
  } else {
    this.connected = false;
    if (this.onerror) this.onerror(new Error(`SSE connection failed after ${this.maxReconnectAttempts} attempts`));
  }
  \<close>
  The outcome is that of the \<^verbatim>\<open>start()\<close> the handler awaits. The handler is an
  \<^verbatim>\<open>async\<close> function nobody awaits, so an error thrown by the owner's handler is lost.
\<close>

definition eventSource_onerror ::
  "lib \<Rightarrow> start_outcome \<Rightarrow> SSETransport \<Rightarrow> effect list \<times> SSETransport" where
  "eventSource_onerror L outcome t =
     (if reconnectAttempts t < maxReconnectAttempts t then
        (let t1 = t\<lparr>reconnectAttempts := reconnectAttempts t + 1\<rparr>;
             delay = reconnectDelay t1 * 2 ^ (reconnectAttempts t1 - 1);
             t2 = (if eventSource t1 \<noteq> None then t1\<lparr>eventSource := None\<rparr> else t1)
         in case start outcome t2 of
              (Inr u, t3) \<Rightarrow> ([Sleep delay], t3)
            | (Inl reconnectError, t3) \<Rightarrow>
                (if onerror t3 \<noteq> None
                 then ([Sleep delay,
                        Call_onerror (Error (''Failed to reconnect to SSE server: ''
                                             @ String_of_error L reconnectError))], t3)
                 else ([Sleep delay], t3)))
      else
        (let t1 = t\<lparr>connected := False\<rparr> in
         if onerror t1 \<noteq> None
         then ([fatal_report t1], t1)
         else ([], t1)))"

text \<open>
  A run of stream errors on one transport, one after the other: each is delivered to the
  handler of the stream the transport holds at that moment (a transport without a stream
  receives none), and each comes with the outcome of the reconnection it starts.
\<close>

fun stream_errors ::
  "lib \<Rightarrow> start_outcome list \<Rightarrow> SSETransport \<Rightarrow> effect list \<times> SSETransport" where
  "stream_errors L [] t = ([], t)"
| "stream_errors L (outcome # outcomes) t =
     (if eventSource t = None then ([], t)
      else (case eventSource_onerror L outcome t of
              (effs, t') \<Rightarrow>
                (case stream_errors L outcomes t' of
                   (effs', t'') \<Rightarrow> (effs @ effs', t''))))"

text \<open>The waits of a run, in order.\<close>

fun delays :: "effect list \<Rightarrow> nat list" where
  "delays [] = []"
| "delays (Sleep d # effs) = d # delays effs"
| "delays (e # effs) = delays effs"

text \<open>
  \<^verbatim>\<open>close()\<close>:
  \<^verbatim>\<open>
  try {
    if (this.eventSource) { this.eventSource.close(); this.eventSource = null; this.connected = false; }
    if (this.onclose) { this.onclose(); }
    return Promise.resolve();
  } catch (error) {
    if (this.onerror && error instanceof Error) { this.onerror(error); }
    return Promise.reject(error);
  }
  \<close>
  The result is how the returned promise settles, the handler calls made, and the
  transport afterwards. An error thrown by \<^verbatim>\<open>onerror\<close> inside the \<^verbatim>\<open>catch\<close> replaces
  the rejection.
\<close>

definition close :: "SSETransport \<Rightarrow> (js_error + unit) \<times> effect list \<times> SSETransport" where
  "close t =
     (let t1 = (if eventSource t \<noteq> None then t\<lparr>eventSource := None, connected := False\<rparr>
                else t)
      in case onclose t1 of
           None \<Rightarrow> (Inr (), [], t1)
         | Some h \<Rightarrow>
             (case invoke h of
                None \<Rightarrow> (Inr (), [Call_onclose], t1)
              | Some e \<Rightarrow>
                  (case onerror t1 of
                     None \<Rightarrow> (Inl e, [Call_onclose], t1)
                   | Some h' \<Rightarrow>
                       (if instanceof_Error e
                        then (case invoke h' of
                                None \<Rightarrow> (Inl e, [Call_onclose, Call_onerror e], t1)
                              | Some e' \<Rightarrow> (Inl e', [Call_onclose, Call_onerror e], t1))
                        else (Inl e, [Call_onclose], t1)))))"

text \<open>\<open>n\<close> calls of \<^verbatim>\<open>close()\<close> in a row: all handler calls made, and the final transport.\<close>

fun close_times :: "nat \<Rightarrow> SSETransport \<Rightarrow> effect list \<times> SSETransport" where
  "close_times 0 t = ([], t)"
| "close_times (Suc n) t =
     (case close t of
        (r, effs, t') \<Rightarrow>
          (case close_times n t' of (effs', t'') \<Rightarrow> (effs @ effs', t'')))"

section \<open>Registry and client cache\<close>

text \<open>
  The module keeps two maps, \<^verbatim>\<open>sseServers\<close> (name to server detail) and
  \<^verbatim>\<open>connectedClients\<close> (name to \<^verbatim>\<open>Client\<close> object). Clients are objects: the cache
  holds references into a store, so that what \<^verbatim>\<open>close()\<close> does to the transport of an
  evicted client stays visible. Of a \<^verbatim>\<open>Client\<close> the code reads one member, its
  \<^verbatim>\<open>_transport\<close> (\<open>None\<close>: undefined).

  \<open>unhandled\<close> collects the errors of rejected promises that no code awaits or
  catches, in the order they occur (what the runtime reports as unhandled rejections).
\<close>

type_synonym ref = nat

record Client =
  transport :: "SSETransport option"

record ServerDetail =
  url :: string
  name :: string

record world =
  sseServers :: "string \<rightharpoonup> ServerDetail"
  connectedClients :: "string \<rightharpoonup> ref"
  heap :: "ref \<rightharpoonup> Client"
  next_ref :: ref
  unhandled :: "js_error list"

text \<open>
  The clean-up shared by \<^verbatim>\<open>registerSSEServer\<close> and \<^verbatim>\<open>unregisterSSEServer\<close>:
  \<^verbatim>\<open>
  if (connectedClients.has(name)) {
    const client = connectedClients.get(name);
    if (client) {
      try { (client as any)._transport?.close?.(); } catch (error) { Logger.debug(...); }
    }
    connectedClients.delete(name);
  }
  \<close>
  \<^verbatim>\<open>close()\<close> is an \<^verbatim>\<open>async\<close> method without an \<^verbatim>\<open>await\<close>: its body runs to its end
  inside the call, and whatever goes wrong in it rejects the promise it returns instead
  of throwing. The call is not awaited, so the \<^verbatim>\<open>try\<close> around it has nothing to catch:
  a rejected promise is left without a handler.
\<close>

definition cleanup_client :: "string \<Rightarrow> world \<Rightarrow> world" where
  "cleanup_client n w =
     (case connectedClients w n of
        None \<Rightarrow> w
      | Some r \<Rightarrow>
          (let w1 = (case heap w r of
                       None \<Rightarrow> w
                     | Some client \<Rightarrow>
                         (case transport client of
                            None \<Rightarrow> w
                          | Some t \<Rightarrow>
                              (case close t of
                                 (Inr u, effs, t') \<Rightarrow>
                                   w\<lparr>heap := (heap w)(r \<mapsto> client\<lparr>transport := Some t'\<rparr>)\<rparr>
                               | (Inl e, effs, t') \<Rightarrow>
                                   w\<lparr>heap := (heap w)(r \<mapsto> client\<lparr>transport := Some t'\<rparr>),
                                     unhandled := unhandled w @ [e]\<rparr>)))
           in w1\<lparr>connectedClients := (connectedClients w1)(n := None)\<rparr>))"

text \<open>\<^verbatim>\<open>registerSSEServer(name, url, force = false)\<close>\<close>

definition registerSSEServer :: "string \<Rightarrow> string \<Rightarrow> bool \<Rightarrow> world \<Rightarrow> world" where
  "registerSSEServer n u force w =
     (if sseServers w n \<noteq> None \<and> \<not> force then w
      else
        (let w1 = (if sseServers w n \<noteq> None
                   then cleanup_client n (w\<lparr>sseServers := (sseServers w)(n := None)\<rparr>)
                   else w)
         in w1\<lparr>sseServers := (sseServers w1)(n \<mapsto> \<lparr>url = u, name = n\<rparr>)\<rparr>))"

text \<open>\<^verbatim>\<open>unregisterSSEServer(name)\<close>\<close>

definition unregisterSSEServer :: "string \<Rightarrow> world \<Rightarrow> world" where
  "unregisterSSEServer n w =
     (if sseServers w n = None then w
      else (let w1 = cleanup_client n w
            in w1\<lparr>sseServers := (sseServers w1)(n := None)\<rparr>))"

text \<open>
  \<^verbatim>\<open>getClient(serverName)\<close>. \<open>connect\<close> is \<^verbatim>\<open>new Client(...)\<close> followed by
  \<^verbatim>\<open>await client.connect(transport)\<close> of the SDK: given the fresh transport it yields
  the connected client, or the error the connection failed with. The \<^verbatim>\<open>try\<close> block is
  \<open>getClient_try\<close>; the \<^verbatim>\<open>catch\<close> wraps whatever it threw in a \<^verbatim>\<open>ToolCallError\<close>.
\<close>

definition getClient_try ::
  "(SSETransport \<Rightarrow> js_error + Client) \<Rightarrow> string \<Rightarrow> world \<Rightarrow> js_error + Client" where
  "getClient_try connect sname w =
     (case sseServers w sname of
        None \<Rightarrow> Inl (ServerNotFoundError sname)
      | Some serverDetail \<Rightarrow> connect (new_SSETransport sname (url serverDetail)))"

definition getClient ::
  "lib \<Rightarrow> (SSETransport \<Rightarrow> js_error + Client) \<Rightarrow> string \<Rightarrow> world
     \<Rightarrow> (js_error + ref) \<times> world" where
  "getClient L connect sname w =
     (case connectedClients w sname of
        Some r \<Rightarrow> (Inr r, w)
      | None \<Rightarrow>
          (case getClient_try connect sname w of
             Inr client \<Rightarrow>
               (Inr (next_ref w),
                w\<lparr>heap := (heap w)(next_ref w \<mapsto> client),
                  connectedClients := (connectedClients w)(sname \<mapsto> next_ref w),
                  next_ref := Suc (next_ref w)\<rparr>)
           | Inl e \<Rightarrow> (Inl (ToolCallError sname ''connect'' (error_text L e)), w)))"

section \<open>The invoker: \<^verbatim>\<open>callTool\<close>\<close>

record CallToolInput =
  server_name :: string
  tool_name :: string
  arguments :: json

text \<open>\<open>error = None\<close>: the response object has no \<^verbatim>\<open>error\<close> member.\<close>

record CallToolResponse =
  result :: json
  error :: "string option"
  duration_ms :: int

text \<open>
  What the outside world answers during one \<^verbatim>\<open>callTool\<close>: the three readings of
  \<^verbatim>\<open>Date.now()\<close> (on entry, after the response, in the \<^verbatim>\<open>catch\<close>), the health probe
  \<^verbatim>\<open>fetch(url, {method: 'HEAD'})\<close> (\<open>None\<close>: the promise resolved), the SDK's connect
  and the SDK's \<^verbatim>\<open>client.callTool\<close> on the client found, which returns the response
  or rejects with a value. The transport fields of a client are not followed through the
  SDK call.
\<close>

record call_io =
  now_start :: int
  now_response :: int
  now_catch :: int
  head_fetch :: "string \<Rightarrow> js_error option"
  client_connect :: "SSETransport \<Rightarrow> js_error + Client"
  client_callTool :: "ref \<Rightarrow> string \<Rightarrow> json \<Rightarrow> caught + json"

text \<open>
  The first part of the \<^verbatim>\<open>try\<close> block: take the cached client after a health probe on
  \<^verbatim>\<open>sseServers.get(server_name)?.url || ''\<close>, or evict it and connect again when the probe
  fails; connect when nothing is cached.
\<close>

definition obtain_client ::
  "lib \<Rightarrow> call_io \<Rightarrow> string \<Rightarrow> world \<Rightarrow> (js_error + ref) \<times> world" where
  "obtain_client L io sname w =
     (case connectedClients w sname of
        Some r \<Rightarrow>
          (case head_fetch io (case sseServers w sname of
                                 Some d \<Rightarrow> url d
                               | None \<Rightarrow> []) of
             None \<Rightarrow> (Inr r, w)
           | Some e \<Rightarrow>
               getClient L (client_connect io) sname
                 (w\<lparr>connectedClients := (connectedClients w)(sname := None)\<rparr>))
      | None \<Rightarrow> getClient L (client_connect io) sname w)"

text \<open>
  The whole \<^verbatim>\<open>try\<close> block, up to the value of \<^verbatim>\<open>result\<close>. \<open>Inl\<close> is what the
  \<^verbatim>\<open>catch\<close> receives: an error of \<^verbatim>\<open>getClient\<close> or of the extraction, or the value
  the SDK call rejected with.
\<close>

definition callTool_try ::
  "lib \<Rightarrow> call_io \<Rightarrow> CallToolInput \<Rightarrow> world \<Rightarrow> (caught + json) \<times> world" where
  "callTool_try L io inp w =
     (case obtain_client L io (server_name inp) w of
        (Inl e, w1) \<Rightarrow> (Inl (Caught e), w1)
      | (Inr client, w1) \<Rightarrow>
          (case client_callTool io client (tool_name inp) (arguments inp) of
             Inl c \<Rightarrow> (Inl c, w1)
           | Inr response \<Rightarrow>
               (case extract_result L response of
                  Inl e \<Rightarrow> (Inl (Caught e), w1)
                | Inr res \<Rightarrow> (Inr res, w1))))"

text \<open>
  \<^verbatim>\<open>callTool(input)\<close>: \<open>Inl\<close> is an error raised to the caller. The \<^verbatim>\<open>catch\<close>
  \<^verbatim>\<open>
  if (error instanceof Error &&
      (error.message.includes('ECONNREFUSED') || error.message.includes('timeout') ||
       error.message.includes('not connected'))) {
    connectedClients.delete(server_name);
  }
  return { result: null,
           error: error instanceof Error ? error.message : String(error),
           duration_ms: duration };
  \<close>
  evicts the cached client when the message names a connectivity problem, and returns
  the error as text. Nothing guards the \<^verbatim>\<open>catch\<close> itself: on an \<^verbatim>\<open>Error\<close> whose
  message is not a string the call of \<^verbatim>\<open>includes\<close> throws, and on a value that
  \<^verbatim>\<open>String\<close> cannot convert the conversion throws.
\<close>

definition callTool ::
  "lib \<Rightarrow> call_io \<Rightarrow> CallToolInput \<Rightarrow> world \<Rightarrow> (js_error + CallToolResponse) \<times> world" where
  "callTool L io inp w =
     (case callTool_try L io inp w of
        (Inr res, w1) \<Rightarrow>
          (Inr \<lparr>result = res, error = None,
                duration_ms = now_response io - now_start io\<rparr>, w1)
      | (Inl (Caught e), w1) \<Rightarrow>
          (Inr \<lparr>result = JNull, error = Some (error_text L e),
                duration_ms = now_catch io - now_start io\<rparr>,
           if instanceof_Error e \<and>
              (str_includes (message_of L e) ''ECONNREFUSED'' \<or>
               str_includes (message_of L e) ''timeout'' \<or>
               str_includes (message_of L e) ''not connected'')
           then w1\<lparr>connectedClients := (connectedClients w1)(server_name inp := None)\<rparr>
           else w1)
      | (Inl (Caught_odd_Error m), w1) \<Rightarrow> (Inl (includes_TypeError m), w1)
      | (Inl Caught_unconvertible, w1) \<Rightarrow> (Inl String_TypeError, w1))"

section \<open>The test runner\<close>

text \<open>
  \<^verbatim>\<open>test.expected\<close> is \<^verbatim>\<open>{type, value}\<close>; the members are named \<open>expected_type\<close> and
  \<open>expected_value\<close> here. The type is kept as the string the code compares. The members
  \<^verbatim>\<open>name\<close>, \<^verbatim>\<open>error\<close> and \<^verbatim>\<open>duration_ms\<close> of a test case, a test result and a summary
  carry a prefix, the other members their own names.
\<close>

record expectation =
  expected_type :: string
  expected_value :: json

record TestCase =
  test_name :: string
  description :: string
  tool :: string
  input :: json
  expected :: "expectation option"

record TestResult =
  result_name :: string
  passed :: bool
  message :: string
  result_duration_ms :: int
  result_error :: "string option"

record Summary =
  total :: nat
  summary_passed :: nat
  failed :: nat
  summary_duration_ms :: int

record RunTestsResponse =
  results :: "TestResult list"
  summary :: Summary

record RunTestsInput =
  run_server_name :: string
  test_suite :: "string option"

text \<open>
  What the outside world answers during one \<^verbatim>\<open>runTestCase\<close>: its own three readings of
  \<^verbatim>\<open>Date.now()\<close> and the answers to the \<^verbatim>\<open>callTool\<close> it makes.
\<close>

record test_io =
  test_now_start :: int
  test_now_end :: int
  test_now_catch :: int
  call :: call_io

text \<open>\<^verbatim>\<open>if (result.error)\<close>: a missing or empty \<^verbatim>\<open>error\<close> is falsy.\<close>

fun truthy_str :: "string option \<Rightarrow> bool" where
  "truthy_str None = False"
| "truthy_str (Some s) = (s \<noteq> [])"

text \<open>
  The comparison of \<^verbatim>\<open>runTestCase\<close>: \<^verbatim>\<open>passed\<close> starts \<^verbatim>\<open>false\<close> and is assigned in
  the branch of the expectation's type, if there is one. \<open>Inl\<close> is the error that
  \<^verbatim>\<open>new RegExp\<close> throws.
\<close>

definition compare_expected :: "lib \<Rightarrow> expectation \<Rightarrow> json \<Rightarrow> js_error + bool" where
  "compare_expected L ex res =
     (if expected_type ex = ''equals''
      then Inr (JSON_stringify L res = JSON_stringify L (expected_value ex))
      else if expected_type ex = ''contains''
      then Inr (str_includes (JSON_stringify L res) (JSON_stringify L (expected_value ex)))
      else if expected_type ex = ''regex''
      then RegExp_test L (expected_value ex) (JSON_stringify L res)
      else Inr False)"

text \<open>The \<^verbatim>\<open>try\<close> block of \<^verbatim>\<open>runTestCase(serverName, test)\<close>.\<close>

definition runTestCase_try ::
  "lib \<Rightarrow> test_io \<Rightarrow> string \<Rightarrow> TestCase \<Rightarrow> world \<Rightarrow> (js_error + TestResult) \<times> world" where
  "runTestCase_try L tio sname test w =
     (case callTool L (call tio)
             \<lparr>server_name = sname, tool_name = tool test, arguments = input test\<rparr> w of
        (Inl e, w1) \<Rightarrow> (Inl e, w1)
      | (Inr res, w1) \<Rightarrow>
          (let duration = test_now_end tio - test_now_start tio in
           if truthy_str (error res)
           then (Inr \<lparr>result_name = test_name test, passed = False,
                      message = ''Tool call failed: '' @ (case error res of Some m \<Rightarrow> m | None \<Rightarrow> []),
                      result_duration_ms = duration, result_error = error res\<rparr>, w1)
           else
             (case expected test of
                Some ex \<Rightarrow>
                  (case compare_expected L ex (result res) of
                     Inl e \<Rightarrow> (Inl e, w1)
                   | Inr ok \<Rightarrow>
                       (Inr \<lparr>result_name = test_name test, passed = ok,
                             message = (if ok then ''Test passed''
                                        else ''Test failed: result did not match expected value''),
                             result_duration_ms = duration, result_error = None\<rparr>, w1))
              | None \<Rightarrow>
                  (Inr \<lparr>result_name = test_name test, passed = True,
                        message = ''Test passed'',
                        result_duration_ms = duration, result_error = None\<rparr>, w1))))"

text \<open>\<^verbatim>\<open>runTestCase\<close>: the \<^verbatim>\<open>catch\<close> turns any error into a failing result.\<close>

definition runTestCase ::
  "lib \<Rightarrow> test_io \<Rightarrow> string \<Rightarrow> TestCase \<Rightarrow> world \<Rightarrow> (js_error + TestResult) \<times> world" where
  "runTestCase L tio sname test w =
     (case runTestCase_try L tio sname test w of
        (Inr r, w1) \<Rightarrow> (Inr r, w1)
      | (Inl e, w1) \<Rightarrow>
          (Inr \<lparr>result_name = test_name test, passed = False,
                message = ''Test failed with error: '' @ error_text L e,
                result_duration_ms = test_now_catch tio - test_now_start tio,
                result_error = Some (error_text L e)\<rparr>, w1))"

text \<open>
  What the outside world answers during one \<^verbatim>\<open>runTests\<close>: the three readings of
  \<^verbatim>\<open>Date.now()\<close>; \<^verbatim>\<open>getServerProcess(server_name)\<close> of \<^verbatim>\<open>./docker.js\<close>, called for the
  error it may throw (\<open>None\<close>: it returned); the SDK's connect and \<^verbatim>\<open>client.listTools()\<close>
  for \<^verbatim>\<open>listTools\<close>, the latter giving the names of \<^verbatim>\<open>response.tools\<close> (\<open>None\<close>: the
  response has no tools); and the answers for the test cases, by position.
\<close>

record run_io =
  run_now_start :: int
  run_now_end :: int
  run_now_catch :: int
  getServerProcess :: "string \<Rightarrow> js_error option"
  list_connect :: "SSETransport \<Rightarrow> js_error + Client"
  client_listTools :: "ref \<Rightarrow> js_error + string list option"
  test_ios :: "nat \<Rightarrow> test_io"

text \<open>
  \<^verbatim>\<open>listTools(serverName)\<close>: \<^verbatim>\<open>response?.tools || []\<close> mapped to the names; any error
  of the block is wrapped in a \<^verbatim>\<open>ToolCallError\<close>.
\<close>

definition listTools_try ::
  "lib \<Rightarrow> run_io \<Rightarrow> string \<Rightarrow> world \<Rightarrow> (js_error + string list) \<times> world" where
  "listTools_try L rio sname w =
     (case getClient L (list_connect rio) sname w of
        (Inl e, w1) \<Rightarrow> (Inl e, w1)
      | (Inr client, w1) \<Rightarrow>
          (case client_listTools rio client of
             Inl e \<Rightarrow> (Inl e, w1)
           | Inr None \<Rightarrow> (Inr [], w1)
           | Inr (Some tools) \<Rightarrow> (Inr tools, w1)))"

definition listTools ::
  "lib \<Rightarrow> run_io \<Rightarrow> string \<Rightarrow> world \<Rightarrow> (js_error + string list) \<times> world" where
  "listTools L rio sname w =
     (case listTools_try L rio sname w of
        (Inr tools, w1) \<Rightarrow> (Inr tools, w1)
      | (Inl e, w1) \<Rightarrow> (Inl (ToolCallError sname ''listTools'' (error_text L e)), w1))"

text \<open>The basic test \<^verbatim>\<open>runTests\<close> builds for a tool: empty input, no expectation.\<close>

definition basic_test :: "string \<Rightarrow> TestCase" where
  "basic_test tname =
     \<lparr>test_name = ''List '' @ tname @ '' schema'',
      description = ''Check that '' @ tname @ '' is available and has a valid schema'',
      tool = tname, input = JObj [], expected = None\<rparr>"

text \<open>
  The loop \<^verbatim>\<open>for (const test of basicTests)\<close>, from position \<open>i\<close>: the results in order,
  or the error of the first \<^verbatim>\<open>runTestCase\<close> that raises.
\<close>

fun run_each ::
  "lib \<Rightarrow> (nat \<Rightarrow> test_io) \<Rightarrow> string \<Rightarrow> nat \<Rightarrow> TestCase list \<Rightarrow> world
     \<Rightarrow> (js_error + TestResult list) \<times> world" where
  "run_each L tios sname i [] w = (Inr [], w)"
| "run_each L tios sname i (test # tests) w =
     (case runTestCase L (tios i) sname test w of
        (Inl e, w1) \<Rightarrow> (Inl e, w1)
      | (Inr r, w1) \<Rightarrow>
          (case run_each L tios sname (Suc i) tests w1 of
             (Inl e, w2) \<Rightarrow> (Inl e, w2)
           | (Inr rs, w2) \<Rightarrow> (Inr (r # rs), w2)))"

text \<open>The \<^verbatim>\<open>try\<close> block of \<^verbatim>\<open>runTests(input)\<close>.\<close>

definition runTests_try ::
  "lib \<Rightarrow> run_io \<Rightarrow> RunTestsInput \<Rightarrow> world \<Rightarrow> (js_error + RunTestsResponse) \<times> world" where
  "runTests_try L rio inp w =
     (case getServerProcess rio (run_server_name inp) of
        Some e \<Rightarrow> (Inl e, w)
      | None \<Rightarrow>
          (case listTools L rio (run_server_name inp) w of
             (Inl e, w1) \<Rightarrow> (Inl e, w1)
           | (Inr tools, w1) \<Rightarrow>
               (case run_each L (test_ios rio) (run_server_name inp) 0
                       (map basic_test tools) w1 of
                  (Inl e, w2) \<Rightarrow> (Inl e, w2)
                | (Inr rs, w2) \<Rightarrow>
                    (Inr \<lparr>results = rs,
                          summary = \<lparr>total = length rs,
                                     summary_passed = length (filter passed rs),
                                     failed = length rs - length (filter passed rs),
                                     summary_duration_ms = run_now_end rio - run_now_start rio\<rparr>\<rparr>,
                     w2))))"

text \<open>The response the \<^verbatim>\<open>catch\<close> of \<^verbatim>\<open>runTests\<close> builds from an error.\<close>

definition setup_failure :: "lib \<Rightarrow> run_io \<Rightarrow> js_error \<Rightarrow> RunTestsResponse" where
  "setup_failure L rio e =
     \<lparr>results = [\<lparr>result_name = ''Test suite setup'', passed = False,
                   message = ''Failed to setup test suite: '' @ error_text L e,
                   result_duration_ms = run_now_catch rio - run_now_start rio,
                   result_error = Some (error_text L e)\<rparr>],
      summary = \<lparr>total = 1, summary_passed = 0, failed = 1,
                 summary_duration_ms = run_now_catch rio - run_now_start rio\<rparr>\<rparr>"

text \<open>
  \<^verbatim>\<open>runTests(input)\<close>: the \<^verbatim>\<open>catch\<close> throws a \<^verbatim>\<open>ServerNotFoundError\<close> again and turns
  every other error into the response above.
\<close>

definition runTests ::
  "lib \<Rightarrow> run_io \<Rightarrow> RunTestsInput \<Rightarrow> world \<Rightarrow> (js_error + RunTestsResponse) \<times> world" where
  "runTests L rio inp w =
     (case runTests_try L rio inp w of
        (Inr r, w1) \<Rightarrow> (Inr r, w1)
      | (Inl e, w1) \<Rightarrow>
          (if instanceof_ServerNotFoundError e then (Inl e, w1)
           else (Inr (setup_failure L rio e), w1)))"

section \<open>Concrete inputs\<close>

text \<open>
  Stand-ins for the library parameters and the outside world, used to run the model on
  concrete inputs. \<open>sample_lib\<close> parses the one text \<^verbatim>\<open>5\<close>, prints every value as
  \<^verbatim>\<open>null\<close>, matches nothing, and builds messages the way \<^verbatim>\<open>Error\<close> subclasses usually
  do. \<open>sample_io\<close> answers the health probe, refuses every connection and returns a
  text item from every tool call.
\<close>

definition sample_lib :: lib where
  "sample_lib =
     \<lparr>JSON_parse = (\<lambda>v. if v = JStr ''5'' then Some (JNum 5) else None),
      JSON_stringify = (\<lambda>v. ''null''),
      RegExp_test = (\<lambda>v s. Inr False),
      String_of_error = (\<lambda>e. case e of
                                Error m \<Rightarrow> ''Error: '' @ m
                              | Thrown s \<Rightarrow> s
                              | ServerNotFoundError n \<Rightarrow> ''ServerNotFoundError: '' @ n
                              | ToolCallError s tn m \<Rightarrow> ''ToolCallError: '' @ m),
      ServerNotFoundError_message = (\<lambda>n. ''Server not found: '' @ n),
      ToolCallError_message = (\<lambda>s tn m. ''Tool call failed: '' @ m)\<rparr>"

definition text_item :: "string \<Rightarrow> json" where
  "text_item s = JObj [(''type'', JStr ''text''), (''text'', JStr s)]"

definition sample_io :: call_io where
  "sample_io =
     \<lparr>now_start = 100, now_response = 130, now_catch = 140,
      head_fetch = (\<lambda>u. None),
      client_connect = (\<lambda>t. Inl (Error ''connect ECONNREFUSED 127.0.0.1:4000'')),
      client_callTool = (\<lambda>r tn a. Inr (JObj [(''content'', JArr [text_item ''5''])]))\<rparr>"

definition empty_world :: world where
  "empty_world =
     \<lparr>sseServers = Map.empty, connectedClients = Map.empty, heap = Map.empty, next_ref = 0,
      unhandled = []\<rparr>"

text \<open>
  A transport as a connected client holds it: stream open, both handlers installed and
  returning.
\<close>

definition open_transport :: SSETransport where
  "open_transport =
     (new_SSETransport ''calc'' ''http://localhost:4000'')
       \<lparr>eventSource := Some (EventSource ''http://localhost:4000''), connected := True,
        onclose := Some (Callback None), onerror := Some (Callback None)\<rparr>"

text \<open>
  The world after \<^verbatim>\<open>calc\<close> was registered at \<^verbatim>\<open>http://localhost:4000\<close> and a client
  for it was connected and cached.
\<close>

definition calc_world :: world where
  "calc_world =
     \<lparr>sseServers = [''calc'' \<mapsto> \<lparr>url = ''http://localhost:4000'', name = ''calc''\<rparr>],
      connectedClients = [''calc'' \<mapsto> 0],
      heap = [0 \<mapsto> \<lparr>transport = Some open_transport\<rparr>],
      next_ref = 1, unhandled = []\<rparr>"

text \<open>
  The same world with a client whose \<^verbatim>\<open>onclose\<close> handler throws, so that \<^verbatim>\<open>close()\<close>
  rejects.
\<close>

definition faulty_transport :: SSETransport where
  "faulty_transport = open_transport\<lparr>onclose := Some (Callback (Some (Error ''handler failed'')))\<rparr>"

definition faulty_world :: world where
  "faulty_world = calc_world\<lparr>heap := [0 \<mapsto> \<lparr>transport = Some faulty_transport\<rparr>]\<rparr>"

text \<open>Answers for one test case and for one run of \<^verbatim>\<open>runTests\<close>.\<close>

definition sample_test_io :: test_io where
  "sample_test_io =
     \<lparr>test_now_start = 10, test_now_end = 45, test_now_catch = 46, call = sample_io\<rparr>"

definition sample_run_io :: run_io where
  "sample_run_io =
     \<lparr>run_now_start = 0, run_now_end = 50, run_now_catch = 7,
      getServerProcess = (\<lambda>n. if n = ''ghost'' then Some (ServerNotFoundError n)
                              else if n = ''down'' then Some (Error ''docker is not running'')
                              else None),
      list_connect = (\<lambda>t. Inl (Error ''connect ECONNREFUSED 127.0.0.1:4000'')),
      client_listTools = (\<lambda>r. Inr (Some [''add''])),
      test_ios = (\<lambda>i. sample_test_io)\<rparr>"

section \<open>The cache stays within the registry\<close>

text \<open>Every name with a cached client is a registered name.\<close>

definition cache_within_registry :: "world \<Rightarrow> bool" where
  "cache_within_registry w = (\<forall>n. connectedClients w n \<noteq> None \<longrightarrow> sseServers w n \<noteq> None)"

section \<open>Result normalization\<close>



lemma find_text_null:
  "\<forall>x \<in> set pre. x \<noteq> JNull \<and> get_prop x ''type'' \<noteq> Some (JStr ''text'')
   \<Longrightarrow> find_text (pre @ JNull # post)
       = Inl (Error (''Cannot read properties of null (reading '' @ [CHR 0x27] @ ''type''
                     @ [CHR 0x27] @ '')''))"
  by (induction pre) simp_all





text \<open>
  Claim C9. When the first text item of the content array has the empty string as its
  text, \<^verbatim>\<open>callTool\<close> returns the whole response as the result: the empty text is
  falsy, like a missing one, so nothing is extracted.
\<close>

theorem callTool_empty_text_returns_response:
  assumes "obtain_client L io (server_name inp) w = (Inr c, w1)"
    and "client_callTool io c (tool_name inp) (arguments inp) = Inr response"
    and "get_prop response ''content'' = Some (JArr items)"
    and "find_text items = Inr (Some item)"
    and "get_prop item ''text'' = Some (JStr [])"
  shows "callTool L io inp w
           = (Inr \<lparr>result = response, error = None,
                   duration_ms = now_response io - now_start io\<rparr>, w1)"
proof -
  have "extract_result L response = Inr response"
    using assms(3-5) by (simp add: extract_result_def)
  then show ?thesis using assms(1,2) by (simp add: callTool_def callTool_try_def)
qed

theorem callTool_empty_text_returns_response_witness:
  "obtain_client sample_lib (sample_io\<lparr>client_callTool :=
        (\<lambda>r tn a. Inr (JObj [(''content'', JArr [text_item []])]))\<rparr>) ''calc'' calc_world
     = (Inr 0, calc_world)
   \<and> get_prop (JObj [(''content'', JArr [text_item []])]) ''content'' = Some (JArr [text_item []])
   \<and> find_text [text_item []] = Inr (Some (text_item []))
   \<and> get_prop (text_item []) ''text'' = Some (JStr [])
   \<and> callTool sample_lib (sample_io\<lparr>client_callTool :=
        (\<lambda>r tn a. Inr (JObj [(''content'', JArr [text_item []])]))\<rparr>)
        \<lparr>server_name = ''calc'', tool_name = ''echo'', arguments = JObj []\<rparr> calc_world
     = (Inr \<lparr>result = JObj [(''content'', JArr [text_item []])], error = None,
             duration_ms = 30\<rparr>, calc_world)"
  using callTool_empty_text_returns_response
    [where L = sample_lib
       and io = "sample_io\<lparr>client_callTool :=
                   (\<lambda>r tn a. Inr (JObj [(''content'', JArr [text_item []])]))\<rparr>"
       and inp = "\<lparr>server_name = ''calc'', tool_name = ''echo'', arguments = JObj []\<rparr>"
       and w = calc_world and c = 0 and ?w1.0 = calc_world
       and response = "JObj [(''content'', JArr [text_item []])]"
       and items = "[text_item []]" and item = "text_item []"]
  by (simp add: obtain_client_def calc_world_def sample_io_def text_item_def)

section \<open>Transport: closing\<close>

lemma close_transport_fields:
  "eventSource (snd (snd (close t))) = None"
  "connected (snd (snd (close t))) = (connected t \<and> eventSource t = None)"
  "serverUrl (snd (snd (close t))) = serverUrl t"
  "serverName (snd (snd (close t))) = serverName t"
  "reconnectAttempts (snd (snd (close t))) = reconnectAttempts t"
  "maxReconnectAttempts (snd (snd (close t))) = maxReconnectAttempts t"
  "reconnectDelay (snd (snd (close t))) = reconnectDelay t"
  "onclose (snd (snd (close t))) = onclose t"
  "onerror (snd (snd (close t))) = onerror t"
  by (auto simp: close_def Let_def split: option.splits)

lemma close_transport_eq:
  "snd (snd (close t)) =
     (if eventSource t \<noteq> None then t\<lparr>eventSource := None, connected := False\<rparr> else t)"
  by (auto simp: close_def Let_def split: option.splits)

lemma close_effects_count:
  "count_list (fst (snd (close t))) Call_onclose = (if onclose t = None then 0 else 1)"
  by (auto simp: close_def Let_def split: option.splits)

lemma close_times_count:
  "count_list (fst (close_times k t)) Call_onclose = (if onclose t = None then 0 else k)"
proof (induction k arbitrary: t)
  case 0
  then show ?case by simp
next
  case (Suc k)
  obtain r effs t' where c: "close t = (r, effs, t')" by (cases "close t") auto
  obtain effs' t'' where ct: "close_times k t' = (effs', t'')" by (cases "close_times k t'") auto
  have t': "t' = snd (snd (close t))" and effs: "effs = fst (snd (close t))"
    using c by simp_all
  have "count_list effs' Call_onclose = (if onclose t' = None then 0 else k)"
    using Suc.IH [of t'] ct by simp
  moreover have "onclose t' = onclose t" by (simp add: t' close_transport_fields)
  moreover have "count_list effs Call_onclose = (if onclose t = None then 0 else 1)"
    by (simp add: effs close_effects_count)
  ultimately show ?case by (simp add: c ct)
qed

text \<open>
  Claim C8, as the code has it. \<^verbatim>\<open>close()\<close> releases the stream, and clears
  \<^verbatim>\<open>connected\<close> when a stream was held. It is idempotent on the transport: a second
  call leaves every field as the first call left it. The \<^verbatim>\<open>onclose\<close> handler, when one
  is set, is called by every \<^verbatim>\<open>close()\<close>: \<open>k\<close> calls in a row call it \<open>k\<close> times.
\<close>

theorem close_idempotent_notifies_each_call:
  "snd (snd (close (snd (snd (close t))))) = snd (snd (close t))
   \<and> count_list (fst (close_times k t)) Call_onclose = (if onclose t = None then 0 else k)
   \<and> eventSource (snd (snd (close t))) = None
   \<and> (eventSource t \<noteq> None \<longrightarrow> \<not> connected (snd (snd (close t))))"
  by (simp add: close_times_count close_transport_eq)

theorem close_idempotent_notifies_each_call_witness:
  "snd (snd (close (snd (snd (close open_transport))))) = snd (snd (close open_transport))
   \<and> onclose open_transport \<noteq> None
   \<and> count_list (fst (close_times 3 open_transport)) Call_onclose = 3
   \<and> eventSource open_transport \<noteq> None \<and> connected open_transport
   \<and> eventSource (snd (snd (close open_transport))) = None
   \<and> \<not> connected (snd (snd (close open_transport)))"
  using close_idempotent_notifies_each_call [of open_transport 3]
  by (simp add: open_transport_def new_SSETransport_def)

text \<open>
  Claim C8 as stated asks for one closure callback over any sequence of \<^verbatim>\<open>close()\<close>
  calls. Two calls on an open transport with a handler call it twice.
\<close>

theorem close_twice_notifies_twice:
  "count_list (fst (close_times 2 open_transport)) Call_onclose = 2"
  by (simp add: numeral_2_eq_2 close_def open_transport_def new_SSETransport_def)

section \<open>Transport: reconnection\<close>

lemma start_fields:
  "reconnectAttempts (snd (start outcome t)) = 0"
  "maxReconnectAttempts (snd (start outcome t)) = maxReconnectAttempts t"
  "reconnectDelay (snd (start outcome t)) = reconnectDelay t"
  "onerror (snd (start outcome t)) = onerror t"
  "onclose (snd (start outcome t)) = onclose t"
  "serverName (snd (start outcome t)) = serverName t"
  "serverUrl (snd (start outcome t)) = serverUrl t"
  by (auto simp: start_def Let_def split: start_outcome.splits)

text \<open>
  One stream error on a transport whose counter is zero, as every \<^verbatim>\<open>start()\<close> leaves
  it: the handler waits the base delay, reconnects, and the counter is zero again.
\<close>

lemma eventSource_onerror_retry:
  assumes "reconnectAttempts t = 0" and "0 < maxReconnectAttempts t"
  shows "delays (fst (eventSource_onerror L outcome t)) = [reconnectDelay t]"
    and "fatal_report t' \<notin> set (fst (eventSource_onerror L outcome t))"
    and "reconnectAttempts (snd (eventSource_onerror L outcome t)) = 0"
    and "maxReconnectAttempts (snd (eventSource_onerror L outcome t)) = maxReconnectAttempts t"
    and "reconnectDelay (snd (eventSource_onerror L outcome t)) = reconnectDelay t"
    and "outcome = Opened \<or> outcome = Timed_out \<Longrightarrow>
           eventSource (snd (eventSource_onerror L outcome t)) \<noteq> None"
  using assms
  by (auto simp: eventSource_onerror_def start_def Let_def fatal_report_def
           split: start_outcome.splits)

lemma delays_append: "delays (effs @ effs') = delays effs @ delays effs'"
  by (induction effs rule: delays.induct) simp_all

text \<open>
  Claim C2, what the code does. On a transport that \<^verbatim>\<open>start()\<close> has left with a zero
  counter, any number of stream errors in a row, each followed by a reconnection that
  opens or times out, is answered by a reconnection after the base delay every time:
  the delays do not grow, the give-up report is never made, and the counter is zero at
  the end. Every reconnection runs \<^verbatim>\<open>start()\<close>, which zeroes the counter the handler
  has just incremented.
\<close>

theorem stream_errors_never_give_up:
  assumes "reconnectAttempts t = 0" and "0 < maxReconnectAttempts t"
    and "eventSource t \<noteq> None"
    and "\<forall>outcome \<in> set outcomes. outcome = Opened \<or> outcome = Timed_out"
  shows "delays (fst (stream_errors L outcomes t)) = replicate (length outcomes) (reconnectDelay t)
    \<and> fatal_report t \<notin> set (fst (stream_errors L outcomes t))
    \<and> reconnectAttempts (snd (stream_errors L outcomes t)) = 0"
  using assms
proof (induction outcomes arbitrary: t)
  case Nil
  then show ?case by simp
next
  case (Cons outcome outcomes)
  obtain effs t' where h: "eventSource_onerror L outcome t = (effs, t')"
    by (cases "eventSource_onerror L outcome t") auto
  obtain effs' t'' where r: "stream_errors L outcomes t' = (effs', t'')"
    by (cases "stream_errors L outcomes t'") auto
  have o: "outcome = Opened \<or> outcome = Timed_out" using Cons.prems(4) by simp
  note step = eventSource_onerror_retry
    [OF Cons.prems(1) Cons.prems(2), where L = L and outcome = outcome]
  have effs: "delays effs = [reconnectDelay t]" "fatal_report t \<notin> set effs"
    using step(1) step(2) [where t' = t] h by simp_all
  have t': "reconnectAttempts t' = 0" "maxReconnectAttempts t' = maxReconnectAttempts t"
    "reconnectDelay t' = reconnectDelay t" "eventSource t' \<noteq> None"
    using step(3-5) step(6) [OF o] h by simp_all
  have ih: "delays effs' = replicate (length outcomes) (reconnectDelay t')
    \<and> fatal_report t' \<notin> set effs' \<and> reconnectAttempts t'' = 0"
    using Cons.IH [of t'] t' Cons.prems(2,4) r by simp
  have f: "fatal_report t' = fatal_report t" by (simp add: fatal_report_def t')
  show ?case using Cons.prems(3) effs ih t' f by (simp add: h r delays_append)
qed

theorem stream_errors_never_give_up_witness:
  "reconnectAttempts open_transport = 0 \<and> maxReconnectAttempts open_transport = 3
   \<and> reconnectDelay open_transport = 1000 \<and> eventSource open_transport \<noteq> None
   \<and> delays (fst (stream_errors sample_lib [Timed_out, Timed_out, Timed_out, Timed_out]
                    open_transport))
       = [1000, 1000, 1000, 1000]
   \<and> fatal_report open_transport
       \<notin> set (fst (stream_errors sample_lib [Timed_out, Timed_out, Timed_out, Timed_out]
                      open_transport))
   \<and> reconnectAttempts (snd (stream_errors sample_lib
                                [Timed_out, Timed_out, Timed_out, Timed_out] open_transport)) = 0"
  using stream_errors_never_give_up
    [where t = open_transport and L = sample_lib
       and outcomes = "[Timed_out, Timed_out, Timed_out, Timed_out]"]
  by (simp add: open_transport_def new_SSETransport_def numeral_eq_Suc)

section \<open>Registry\<close>

lemma cleanup_client_sseServers: "sseServers (cleanup_client n w) = sseServers w"
  by (auto simp: cleanup_client_def Let_def split: option.splits prod.splits sum.splits)

lemma cleanup_client_cache:
  "connectedClients (cleanup_client n w) = (connectedClients w)(n := None)"
  by (auto simp: cleanup_client_def Let_def split: option.splits prod.splits sum.splits)

lemma cleanup_client_heap:
  "connectedClients w n = Some r \<Longrightarrow> heap w r = Some c \<Longrightarrow> transport c = Some t \<Longrightarrow>
   heap (cleanup_client n w) = (heap w)(r \<mapsto> c\<lparr>transport := Some (snd (snd (close t)))\<rparr>)"
  by (auto simp: cleanup_client_def Let_def split: option.splits prod.splits sum.splits)

lemma cleanup_client_heap_other:
  "connectedClients w n \<noteq> Some r \<Longrightarrow> heap (cleanup_client n w) r = heap w r"
  by (auto simp: cleanup_client_def Let_def split: option.splits prod.splits sum.splits)

lemma cleanup_client_unhandled:
  "connectedClients w n = Some r \<Longrightarrow> heap w r = Some c \<Longrightarrow> transport c = Some t \<Longrightarrow>
   unhandled (cleanup_client n w)
     = unhandled w @ (case fst (close t) of Inl e \<Rightarrow> [e] | Inr u \<Rightarrow> [])"
  by (auto simp: cleanup_client_def Let_def split: option.splits prod.splits sum.splits)

lemma cleanup_client_unhandled_none:
  "connectedClients w n = None \<Longrightarrow> unhandled (cleanup_client n w) = unhandled w"
  by (simp add: cleanup_client_def)

text \<open>
  Claim C5. Registering an already registered name without \<^verbatim>\<open>force\<close> changes nothing:
  the stored detail, the cache and the cached client's transport are as before, whatever
  the new address is.
\<close>

theorem registerSSEServer_again_noop:
  "sseServers w n \<noteq> None \<Longrightarrow> registerSSEServer n u' False w = w"
  by (simp add: registerSSEServer_def)

theorem registerSSEServer_again_noop_witness:
  "sseServers calc_world ''calc'' \<noteq> None
   \<and> registerSSEServer ''calc'' ''http://localhost:5000'' False calc_world = calc_world
   \<and> sseServers (registerSSEServer ''calc'' ''http://localhost:5000'' False calc_world) ''calc''
       = Some \<lparr>url = ''http://localhost:4000'', name = ''calc''\<rparr>
   \<and> connectedClients (registerSSEServer ''calc'' ''http://localhost:5000'' False calc_world)
        ''calc''
       = Some 0
   \<and> heap (registerSSEServer ''calc'' ''http://localhost:5000'' False calc_world) 0
       = Some \<lparr>transport = Some open_transport\<rparr>"
  using registerSSEServer_again_noop [of calc_world "''calc''" "''http://localhost:5000''"]
  by (simp add: calc_world_def)

text \<open>
  Claim C4, what the code does. Registering an already registered name with
  \<^verbatim>\<open>force\<close> stores the new detail under the name, whether or not the address differs
  from the old one, and drops the name from the cache. A cached client's transport has
  gone through \<^verbatim>\<open>close()\<close>: its stream is released, and it is no longer marked connected
  if it held a stream. Other clients are untouched. An error of \<^verbatim>\<open>close()\<close> is not
  swallowed: when the promise of \<^verbatim>\<open>close()\<close> rejects, its error is left as an unhandled
  rejection.
\<close>

theorem registerSSEServer_force_replaces:
  assumes "sseServers w n \<noteq> None"
  shows "sseServers (registerSSEServer n u True w) = (sseServers w)(n \<mapsto> \<lparr>url = u, name = n\<rparr>)
    \<and> connectedClients (registerSSEServer n u True w) = (connectedClients w)(n := None)
    \<and> (\<forall>r c t. connectedClients w n = Some r \<and> heap w r = Some c \<and> transport c = Some t
          \<longrightarrow> heap (registerSSEServer n u True w) r
                = Some (c\<lparr>transport := Some (snd (snd (close t)))\<rparr>)
              \<and> eventSource (snd (snd (close t))) = None
              \<and> (eventSource t \<noteq> None \<longrightarrow> \<not> connected (snd (snd (close t))))
              \<and> unhandled (registerSSEServer n u True w)
                  = unhandled w @ (case fst (close t) of Inl e \<Rightarrow> [e] | Inr u \<Rightarrow> []))
    \<and> (\<forall>r. connectedClients w n \<noteq> Some r
          \<longrightarrow> heap (registerSSEServer n u True w) r = heap w r)
    \<and> (connectedClients w n = None
          \<longrightarrow> unhandled (registerSSEServer n u True w) = unhandled w)"
proof -
  let ?w0 = "w\<lparr>sseServers := (sseServers w)(n := None)\<rparr>"
  have reg: "registerSSEServer n u True w
      = (cleanup_client n ?w0)\<lparr>sseServers :=
           (sseServers (cleanup_client n ?w0))(n \<mapsto> \<lparr>url = u, name = n\<rparr>)\<rparr>"
    using assms by (simp add: registerSSEServer_def Let_def)
  have a: "sseServers (registerSSEServer n u True w)
             = (sseServers w)(n \<mapsto> \<lparr>url = u, name = n\<rparr>)"
    by (simp add: reg cleanup_client_sseServers)
  have b: "connectedClients (registerSSEServer n u True w) = (connectedClients w)(n := None)"
    by (simp add: reg cleanup_client_cache)
  have c: "heap (registerSSEServer n u True w) r
             = Some (c\<lparr>transport := Some (snd (snd (close t)))\<rparr>)"
    if "connectedClients w n = Some r" "heap w r = Some c" "transport c = Some t" for r c t
    using that by (simp add: reg cleanup_client_heap [of ?w0 n r c t])
  have d: "heap (registerSSEServer n u True w) r = heap w r"
    if "connectedClients w n \<noteq> Some r" for r
    using that by (simp add: reg cleanup_client_heap_other [of ?w0 n r])
  have e: "unhandled (registerSSEServer n u True w)
             = unhandled w @ (case fst (close t) of Inl e \<Rightarrow> [e] | Inr u \<Rightarrow> [])"
    if "connectedClients w n = Some r" "heap w r = Some c" "transport c = Some t" for r c t
    using that by (simp add: reg cleanup_client_unhandled [of ?w0 n r c t])
  have f: "unhandled (registerSSEServer n u True w) = unhandled w"
    if "connectedClients w n = None"
    using that by (simp add: reg cleanup_client_unhandled_none [of ?w0 n])
  show ?thesis
  proof (intro conjI allI impI)
    show "sseServers (registerSSEServer n u True w)
            = (sseServers w)(n \<mapsto> \<lparr>url = u, name = n\<rparr>)"
      by (rule a)
    show "connectedClients (registerSSEServer n u True w) = (connectedClients w)(n := None)"
      by (rule b)
  next
    fix r c t
    assume h: "connectedClients w n = Some r \<and> heap w r = Some c \<and> transport c = Some t"
    show "heap (registerSSEServer n u True w) r
            = Some (c\<lparr>transport := Some (snd (snd (close t)))\<rparr>)"
      using h c by simp
    show "eventSource (snd (snd (close t))) = None"
      by (simp add: close_transport_fields)
    show "unhandled (registerSSEServer n u True w)
            = unhandled w @ (case fst (close t) of Inl e \<Rightarrow> [e] | Inr u \<Rightarrow> [])"
      using h e by simp
  next
    fix t :: SSETransport
    assume "eventSource t \<noteq> None"
    then show "\<not> connected (snd (snd (close t)))"
      by (simp add: close_transport_fields)
  next
    fix r
    assume "connectedClients w n \<noteq> Some r"
    then show "heap (registerSSEServer n u True w) r = heap w r" by (rule d)
  next
    assume "connectedClients w n = None"
    then show "unhandled (registerSSEServer n u True w) = unhandled w" by (rule f)
  qed
qed

theorem registerSSEServer_force_replaces_witness:
  "sseServers calc_world ''calc'' \<noteq> None
   \<and> sseServers (registerSSEServer ''calc'' ''http://localhost:4000'' True calc_world) ''calc''
       = Some \<lparr>url = ''http://localhost:4000'', name = ''calc''\<rparr>
   \<and> connectedClients (registerSSEServer ''calc'' ''http://localhost:4000'' True calc_world)
        ''calc''
       = None
   \<and> connectedClients calc_world ''calc'' = Some 0
   \<and> heap calc_world 0 = Some \<lparr>transport = Some open_transport\<rparr>
   \<and> eventSource open_transport \<noteq> None
   \<and> heap (registerSSEServer ''calc'' ''http://localhost:4000'' True calc_world) 0
       = Some \<lparr>transport = Some (open_transport\<lparr>eventSource := None, connected := False\<rparr>)\<rparr>
   \<and> unhandled (registerSSEServer ''calc'' ''http://localhost:4000'' True calc_world) = []
   \<and> sseServers faulty_world ''calc'' \<noteq> None
   \<and> connectedClients faulty_world ''calc'' = Some 0
   \<and> heap faulty_world 0 = Some \<lparr>transport = Some faulty_transport\<rparr>
   \<and> fst (close faulty_transport) = Inl (Error ''handler failed'')
   \<and> sseServers (registerSSEServer ''calc'' ''http://localhost:5000'' True faulty_world) ''calc''
       = Some \<lparr>url = ''http://localhost:5000'', name = ''calc''\<rparr>
   \<and> connectedClients (registerSSEServer ''calc'' ''http://localhost:5000'' True faulty_world)
        ''calc''
       = None
   \<and> heap (registerSSEServer ''calc'' ''http://localhost:5000'' True faulty_world) 0
       = Some \<lparr>transport = Some (faulty_transport\<lparr>eventSource := None, connected := False\<rparr>)\<rparr>
   \<and> unhandled (registerSSEServer ''calc'' ''http://localhost:5000'' True faulty_world)
       = [Error ''handler failed'']"
proof -
  have rc: "sseServers calc_world ''calc'' \<noteq> None" "connectedClients calc_world ''calc'' = Some 0"
    "heap calc_world 0 = Some \<lparr>transport = Some open_transport\<rparr>" "unhandled calc_world = []"
    by (simp_all add: calc_world_def)
  have rf: "sseServers faulty_world ''calc'' \<noteq> None"
    "connectedClients faulty_world ''calc'' = Some 0"
    "heap faulty_world 0 = Some \<lparr>transport = Some faulty_transport\<rparr>"
    "unhandled faulty_world = []"
    by (simp_all add: faulty_world_def calc_world_def)
  have co: "eventSource open_transport \<noteq> None" "fst (close open_transport) = Inr ()"
    "snd (snd (close open_transport)) = open_transport\<lparr>eventSource := None, connected := False\<rparr>"
    by (simp_all add: close_def open_transport_def new_SSETransport_def)
  have cf: "fst (close faulty_transport) = Inl (Error ''handler failed'')"
    "snd (snd (close faulty_transport))
       = faulty_transport\<lparr>eventSource := None, connected := False\<rparr>"
    by (simp_all add: close_def faulty_transport_def open_transport_def new_SSETransport_def)
  note c = registerSSEServer_force_replaces
    [OF rc(1), where u = "''http://localhost:4000''"]
  note f = registerSSEServer_force_replaces
    [OF rf(1), where u = "''http://localhost:5000''"]
  note c3 = c [THEN conjunct2, THEN conjunct2, THEN conjunct1, rule_format,
               of 0 "\<lparr>transport = Some open_transport\<rparr>" open_transport]
  note f3 = f [THEN conjunct2, THEN conjunct2, THEN conjunct1, rule_format,
               of 0 "\<lparr>transport = Some faulty_transport\<rparr>" faulty_transport]
  have c1: "sseServers (registerSSEServer ''calc'' ''http://localhost:4000'' True calc_world)
              ''calc''
       = Some \<lparr>url = ''http://localhost:4000'', name = ''calc''\<rparr>"
    using c [THEN conjunct1] by simp
  have c2: "connectedClients (registerSSEServer ''calc'' ''http://localhost:4000'' True
              calc_world) ''calc'' = None"
    using c [THEN conjunct2, THEN conjunct1] by simp
  have c4: "heap (registerSSEServer ''calc'' ''http://localhost:4000'' True calc_world) 0
       = Some \<lparr>transport = Some (open_transport\<lparr>eventSource := None, connected := False\<rparr>)\<rparr>"
    using c3 rc co by simp
  have c5: "unhandled (registerSSEServer ''calc'' ''http://localhost:4000'' True calc_world)
       = []"
    using c3 rc co by simp
  have f1: "sseServers (registerSSEServer ''calc'' ''http://localhost:5000'' True faulty_world)
              ''calc''
       = Some \<lparr>url = ''http://localhost:5000'', name = ''calc''\<rparr>"
    using f [THEN conjunct1] by simp
  have f2: "connectedClients (registerSSEServer ''calc'' ''http://localhost:5000'' True
              faulty_world) ''calc'' = None"
    using f [THEN conjunct2, THEN conjunct1] by simp
  have f4: "heap (registerSSEServer ''calc'' ''http://localhost:5000'' True faulty_world) 0
       = Some \<lparr>transport = Some (faulty_transport\<lparr>eventSource := None, connected := False\<rparr>)\<rparr>"
    using f3 rf cf by simp
  have f5: "unhandled (registerSSEServer ''calc'' ''http://localhost:5000'' True faulty_world)
       = [Error ''handler failed'']"
    using f3 rf cf by simp
  show ?thesis
    using rc rf co cf c1 c2 c4 c5 f1 f2 f4 f5 by simp
qed

section \<open>The cache stays within the registry: preservation\<close>

lemma cache_within_registry_empty: "cache_within_registry empty_world"
  by (simp add: cache_within_registry_def empty_world_def)

lemma cache_within_registry_register:
  "cache_within_registry w \<Longrightarrow> cache_within_registry (registerSSEServer n u force w)"
  by (auto simp: cache_within_registry_def registerSSEServer_def Let_def
        cleanup_client_sseServers cleanup_client_cache)

lemma cache_within_registry_unregister:
  "cache_within_registry w \<Longrightarrow> cache_within_registry (unregisterSSEServer n w)"
  by (auto simp: cache_within_registry_def unregisterSSEServer_def Let_def
        cleanup_client_sseServers cleanup_client_cache)

lemma cache_within_registry_getClient:
  "cache_within_registry w \<Longrightarrow> cache_within_registry (snd (getClient L connect n w))"
  by (auto simp: cache_within_registry_def getClient_def getClient_try_def
           split: option.splits sum.splits)

lemma cache_within_registry_evict:
  "cache_within_registry w \<Longrightarrow>
   cache_within_registry (w\<lparr>connectedClients := (connectedClients w)(n := None)\<rparr>)"
  by (auto simp: cache_within_registry_def)

lemma cache_within_registry_obtain_client:
  "cache_within_registry w \<Longrightarrow> cache_within_registry (snd (obtain_client L io n w))"
  by (auto simp: obtain_client_def cache_within_registry_getClient cache_within_registry_evict
           split: option.splits)

lemma callTool_try_world:
  "snd (callTool_try L io inp w) = snd (obtain_client L io (server_name inp) w)"
  by (auto simp: callTool_try_def split: prod.splits sum.splits)

lemma cache_within_registry_callTool:
  "cache_within_registry w \<Longrightarrow> cache_within_registry (snd (callTool L io inp w))"
proof -
  assume a: "cache_within_registry w"
  have b: "cache_within_registry (snd (callTool_try L io inp w))"
    by (simp add: callTool_try_world cache_within_registry_obtain_client a)
  show ?thesis
  proof (cases "callTool_try L io inp w")
    case (Pair r w1)
    then have "cache_within_registry w1" using b by simp
    then show ?thesis using Pair
      by (auto simp: callTool_def cache_within_registry_evict split: sum.splits caught.splits)
  qed
qed

lemma cache_within_registry_listTools:
  "cache_within_registry w \<Longrightarrow> cache_within_registry (snd (listTools L rio n w))"
proof -
  assume a: "cache_within_registry w"
  have "snd (listTools L rio n w) = snd (getClient L (list_connect rio) n w)"
    by (auto simp: listTools_def listTools_try_def split: prod.splits sum.splits option.splits)
  then show ?thesis using a by (simp add: cache_within_registry_getClient)
qed

lemma runTestCase_world:
  "snd (runTestCase L tio sname test w)
     = snd (callTool L (call tio)
              \<lparr>server_name = sname, tool_name = tool test, arguments = input test\<rparr> w)"
  by (auto simp: runTestCase_def runTestCase_try_def Let_def
           split: prod.splits sum.splits option.splits)

lemma cache_within_registry_runTestCase:
  "cache_within_registry w \<Longrightarrow> cache_within_registry (snd (runTestCase L tio sname test w))"
  by (simp add: runTestCase_world cache_within_registry_callTool)


section \<open>The invoker\<close>









section \<open>The test runner: one test case\<close>

lemma callTool_calc_world:
  "callTool sample_lib sample_io
     \<lparr>server_name = ''calc'', tool_name = ''add'', arguments = JObj []\<rparr> calc_world
   = (Inr \<lparr>result = JNum 5, error = None, duration_ms = 30\<rparr>, calc_world)"
  by (simp add: callTool_def callTool_try_def obtain_client_def calc_world_def sample_io_def
        extract_result_def text_item_def sample_lib_def)

text \<open>
  Claim C10. When the tool call returns without an error text and the test's
  expectation has a type other than \<^verbatim>\<open>equals\<close>, \<^verbatim>\<open>contains\<close> and \<^verbatim>\<open>regex\<close>, the
  test result is a failure with the mismatch message: no branch assigns \<^verbatim>\<open>passed\<close>,
  which stays \<^verbatim>\<open>false\<close>, and nothing is raised.
\<close>

theorem runTestCase_unknown_expectation_fails:
  assumes "callTool L (call tio)
             \<lparr>server_name = sname, tool_name = tool test, arguments = input test\<rparr> w
           = (Inr res, w1)"
    and "\<not> truthy_str (error res)"
    and "expected test = Some ex"
    and "expected_type ex \<notin> {''equals'', ''contains'', ''regex''}"
  shows "runTestCase L tio sname test w
           = (Inr \<lparr>result_name = test_name test, passed = False,
                   message = ''Test failed: result did not match expected value'',
                   result_duration_ms = test_now_end tio - test_now_start tio,
                   result_error = None\<rparr>, w1)"
proof -
  have "compare_expected L ex (result res) = Inr False"
    using assms(4) by (simp add: compare_expected_def)
  then show ?thesis
    using assms(1-3) by (simp add: runTestCase_def runTestCase_try_def Let_def)
qed

theorem runTestCase_unknown_expectation_fails_witness:
  "callTool sample_lib (call sample_test_io)
     \<lparr>server_name = ''calc'', tool_name = ''add'', arguments = JObj []\<rparr> calc_world
     = (Inr \<lparr>result = JNum 5, error = None, duration_ms = 30\<rparr>, calc_world)
   \<and> \<not> truthy_str (error \<lparr>result = JNum 5, error = None, duration_ms = 30\<rparr>)
   \<and> ''matches'' \<notin> {''equals'', ''contains'', ''regex''}
   \<and> runTestCase sample_lib sample_test_io ''calc''
        \<lparr>test_name = ''add gives five'', description = ''the sum'', tool = ''add'',
         input = JObj [],
         expected = Some \<lparr>expected_type = ''matches'', expected_value = JNum 5\<rparr>\<rparr> calc_world
     = (Inr \<lparr>result_name = ''add gives five'', passed = False,
             message = ''Test failed: result did not match expected value'',
             result_duration_ms = 35, result_error = None\<rparr>, calc_world)"
  using runTestCase_unknown_expectation_fails
    [where L = sample_lib and tio = sample_test_io and sname = "''calc''"
       and test = "\<lparr>test_name = ''add gives five'', description = ''the sum'', tool = ''add'',
         input = JObj [],
         expected = Some \<lparr>expected_type = ''matches'', expected_value = JNum 5\<rparr>\<rparr>"
       and w = calc_world and res = "\<lparr>result = JNum 5, error = None, duration_ms = 30\<rparr>"
       and ?w1.0 = calc_world
       and ex = "\<lparr>expected_type = ''matches'', expected_value = JNum 5\<rparr>"]
    callTool_calc_world
  by (simp add: sample_test_io_def)

section \<open>The test runner: a run\<close>

lemma runTestCase_returns: "\<exists>r. fst (runTestCase L tio sname test w) = Inr r"
  by (auto simp: runTestCase_def split: prod.splits sum.splits)

lemma run_each_returns: "\<exists>rs. fst (run_each L tios sname i tests w) = Inr rs"
proof (induction tests arbitrary: i w)
  case Nil
  then show ?case by simp
next
  case (Cons test tests)
  obtain r w1 where a: "runTestCase L (tios i) sname test w = (Inr r, w1)"
    using runTestCase_returns [of L "tios i" sname test w]
    by (cases "runTestCase L (tios i) sname test w") auto
  obtain rs where b: "fst (run_each L tios sname (Suc i) tests w1) = Inr rs"
    using Cons.IH by blast
  then show ?case using a by (auto split: prod.splits sum.splits)
qed

lemma listTools_fails:
  "fst (listTools_try L rio sname w) = Inl e \<Longrightarrow>
   fst (listTools L rio sname w) = Inl (ToolCallError sname ''listTools'' (error_text L e))"
  by (auto simp: listTools_def split: prod.splits sum.splits)

lemma listTools_fails_iff:
  "fst (listTools L rio sname w) = Inl e' \<longleftrightarrow>
   (\<exists>e. fst (listTools_try L rio sname w) = Inl e
        \<and> e' = ToolCallError sname ''listTools'' (error_text L e))"
  by (auto simp: listTools_def split: prod.splits sum.splits)

text \<open>
  The \<^verbatim>\<open>try\<close> block of \<^verbatim>\<open>runTests\<close> fails in its set-up only: when
  \<^verbatim>\<open>getServerProcess\<close> throws, or when \<^verbatim>\<open>listTools\<close> does. The loop over the test cases
  cannot fail, since \<^verbatim>\<open>runTestCase\<close> never raises.
\<close>

lemma runTests_try_fails_iff:
  "fst (runTests_try L rio inp w) = Inl e \<longleftrightarrow>
     getServerProcess rio (run_server_name inp) = Some e
     \<or> (getServerProcess rio (run_server_name inp) = None
         \<and> fst (listTools L rio (run_server_name inp) w) = Inl e)"
proof (cases "getServerProcess rio (run_server_name inp)")
  case (Some e')
  then show ?thesis by (auto simp: runTests_try_def)
next
  case None
  show ?thesis
  proof (cases "listTools L rio (run_server_name inp) w")
    case (Pair r w1)
    show ?thesis
    proof (cases r)
      case (Inl e')
      then show ?thesis using None Pair by (auto simp: runTests_try_def)
    next
      case (Inr tools)
      obtain rs where "fst (run_each L (test_ios rio) (run_server_name inp) 0
                              (map basic_test tools) w1) = Inr rs"
        using run_each_returns by blast
      then show ?thesis using None Pair Inr
        by (auto simp: runTests_try_def split: prod.splits sum.splits)
    qed
  qed
qed

text \<open>
  Claim C6. An error of the set-up of \<^verbatim>\<open>runTests\<close> that is not a
  \<^verbatim>\<open>ServerNotFoundError\<close> is not raised: the response holds one failing result
  carrying the error text and the summary 1 total, 0 passed, 1 failed. That covers an
  error of \<^verbatim>\<open>getServerProcess\<close> and every failure of \<^verbatim>\<open>listTools\<close>, which arrives
  as a \<^verbatim>\<open>ToolCallError\<close>. A \<^verbatim>\<open>ServerNotFoundError\<close> is raised to the caller, and it is
  the only error \<^verbatim>\<open>runTests\<close> raises.
\<close>

theorem runTests_setup_errors:
  "(\<forall>e. getServerProcess rio (run_server_name inp) = Some e
          \<and> instanceof_ServerNotFoundError e \<longrightarrow>
        fst (runTests L rio inp w) = Inl e)
   \<and> (\<forall>e. getServerProcess rio (run_server_name inp) = Some e
          \<and> \<not> instanceof_ServerNotFoundError e \<longrightarrow>
        fst (runTests L rio inp w) = Inr (setup_failure L rio e))
   \<and> (\<forall>e. getServerProcess rio (run_server_name inp) = None
          \<and> fst (listTools_try L rio (run_server_name inp) w) = Inl e \<longrightarrow>
        fst (runTests L rio inp w)
          = Inr (setup_failure L rio
                   (ToolCallError (run_server_name inp) ''listTools'' (error_text L e))))
   \<and> (\<forall>e. fst (runTests_try L rio inp w) = Inl e \<longrightarrow>
        fst (runTests L rio inp w)
          = (if instanceof_ServerNotFoundError e then Inl e
             else Inr (setup_failure L rio e)))
   \<and> (\<forall>e. fst (runTests L rio inp w) = Inl e \<longrightarrow>
        instanceof_ServerNotFoundError e
        \<and> getServerProcess rio (run_server_name inp) = Some e)
   \<and> (\<forall>e. \<exists>r. results (setup_failure L rio e) = [r] \<and> \<not> passed r
          \<and> result_error r = Some (error_text L e)
          \<and> message r = ''Failed to setup test suite: '' @ error_text L e
          \<and> total (summary (setup_failure L rio e)) = 1
          \<and> summary_passed (summary (setup_failure L rio e)) = 0
          \<and> failed (summary (setup_failure L rio e)) = 1)"
proof (intro conjI allI impI)
  fix e
  assume "getServerProcess rio (run_server_name inp) = Some e \<and> instanceof_ServerNotFoundError e"
  then show "fst (runTests L rio inp w) = Inl e"
    by (simp add: runTests_def runTests_try_def)
next
  fix e
  assume "getServerProcess rio (run_server_name inp) = Some e
          \<and> \<not> instanceof_ServerNotFoundError e"
  then show "fst (runTests L rio inp w) = Inr (setup_failure L rio e)"
    by (simp add: runTests_def runTests_try_def)
next
  fix e
  assume a: "getServerProcess rio (run_server_name inp) = None
          \<and> fst (listTools_try L rio (run_server_name inp) w) = Inl e"
  then have "fst (listTools L rio (run_server_name inp) w)
      = Inl (ToolCallError (run_server_name inp) ''listTools'' (error_text L e))"
    by (simp add: listTools_fails)
  then show "fst (runTests L rio inp w)
          = Inr (setup_failure L rio
                   (ToolCallError (run_server_name inp) ''listTools'' (error_text L e)))"
    using a by (auto simp: runTests_def runTests_try_def split: prod.splits sum.splits)
next
  fix e
  assume "fst (runTests_try L rio inp w) = Inl e"
  then show "fst (runTests L rio inp w)
          = (if instanceof_ServerNotFoundError e then Inl e
             else Inr (setup_failure L rio e))"
    by (auto simp: runTests_def split: prod.splits sum.splits)
next
  fix e
  assume a: "fst (runTests L rio inp w) = Inl e"
  then have t: "fst (runTests_try L rio inp w) = Inl e" and s: "instanceof_ServerNotFoundError e"
    by (auto simp: runTests_def split: prod.splits sum.splits if_splits)
  from s show "instanceof_ServerNotFoundError e" .
  from t have "getServerProcess rio (run_server_name inp) = Some e
     \<or> (getServerProcess rio (run_server_name inp) = None
         \<and> fst (listTools L rio (run_server_name inp) w) = Inl e)"
    by (simp add: runTests_try_fails_iff)
  then show "getServerProcess rio (run_server_name inp) = Some e"
    using s by (auto simp: listTools_fails_iff)
next
  fix e
  show "\<exists>r. results (setup_failure L rio e) = [r] \<and> \<not> passed r
          \<and> result_error r = Some (error_text L e)
          \<and> message r = ''Failed to setup test suite: '' @ error_text L e
          \<and> total (summary (setup_failure L rio e)) = 1
          \<and> summary_passed (summary (setup_failure L rio e)) = 0
          \<and> failed (summary (setup_failure L rio e)) = 1"
    by (simp add: setup_failure_def)
qed

theorem runTests_setup_errors_witness:
  "getServerProcess sample_run_io ''ghost'' = Some (ServerNotFoundError ''ghost'')
   \<and> instanceof_ServerNotFoundError (ServerNotFoundError ''ghost'')
   \<and> fst (runTests sample_lib sample_run_io
             \<lparr>run_server_name = ''ghost'', test_suite = None\<rparr> empty_world)
       = Inl (ServerNotFoundError ''ghost'')
   \<and> getServerProcess sample_run_io ''down'' = Some (Error ''docker is not running'')
   \<and> \<not> instanceof_ServerNotFoundError (Error ''docker is not running'')
   \<and> fst (runTests sample_lib sample_run_io
             \<lparr>run_server_name = ''down'', test_suite = None\<rparr> empty_world)
       = Inr \<lparr>results = [\<lparr>result_name = ''Test suite setup'', passed = False,
                           message = ''Failed to setup test suite: docker is not running'',
                           result_duration_ms = 7,
                           result_error = Some ''docker is not running''\<rparr>],
              summary = \<lparr>total = 1, summary_passed = 0, failed = 1,
                         summary_duration_ms = 7\<rparr>\<rparr>
   \<and> getServerProcess sample_run_io ''calc'' = None
   \<and> fst (listTools_try sample_lib sample_run_io ''calc'' empty_world)
       = Inl (ToolCallError ''calc'' ''connect'' ''Server not found: calc'')
   \<and> fst (runTests sample_lib sample_run_io
             \<lparr>run_server_name = ''calc'', test_suite = None\<rparr> empty_world)
       = Inr (setup_failure sample_lib sample_run_io
                (ToolCallError ''calc'' ''listTools'' ''Tool call failed: Server not found: calc''))"
proof -
  note ghost = runTests_setup_errors
      [where L = sample_lib and rio = sample_run_io and w = empty_world
         and inp = "\<lparr>run_server_name = ''ghost'', test_suite = None\<rparr>"]
  note down = runTests_setup_errors
      [where L = sample_lib and rio = sample_run_io and w = empty_world
         and inp = "\<lparr>run_server_name = ''down'', test_suite = None\<rparr>"]
  note calc = runTests_setup_errors
      [where L = sample_lib and rio = sample_run_io and w = empty_world
         and inp = "\<lparr>run_server_name = ''calc'', test_suite = None\<rparr>"]
  have g: "getServerProcess sample_run_io ''ghost'' = Some (ServerNotFoundError ''ghost'')"
    by (simp add: sample_run_io_def)
  have d: "getServerProcess sample_run_io ''down'' = Some (Error ''docker is not running'')"
    by (simp add: sample_run_io_def)
  have c: "getServerProcess sample_run_io ''calc'' = None"
    by (simp add: sample_run_io_def)
  have l: "fst (listTools_try sample_lib sample_run_io ''calc'' empty_world)
       = Inl (ToolCallError ''calc'' ''connect'' ''Server not found: calc'')"
    by (simp add: listTools_try_def getClient_def getClient_try_def empty_world_def
          sample_lib_def)
  have rg: "fst (runTests sample_lib sample_run_io
             \<lparr>run_server_name = ''ghost'', test_suite = None\<rparr> empty_world)
       = Inl (ServerNotFoundError ''ghost'')"
    using ghost [THEN conjunct1, rule_format, of "ServerNotFoundError ''ghost''"] g by simp
  have rd: "fst (runTests sample_lib sample_run_io
             \<lparr>run_server_name = ''down'', test_suite = None\<rparr> empty_world)
       = Inr (setup_failure sample_lib sample_run_io (Error ''docker is not running''))"
    using down [THEN conjunct2, THEN conjunct1, rule_format, of "Error ''docker is not running''"]
      d by simp
  have sd: "setup_failure sample_lib sample_run_io (Error ''docker is not running'')
       = \<lparr>results = [\<lparr>result_name = ''Test suite setup'', passed = False,
                           message = ''Failed to setup test suite: docker is not running'',
                           result_duration_ms = 7,
                           result_error = Some ''docker is not running''\<rparr>],
              summary = \<lparr>total = 1, summary_passed = 0, failed = 1,
                         summary_duration_ms = 7\<rparr>\<rparr>"
    by (simp add: setup_failure_def sample_run_io_def)
  have rc: "fst (runTests sample_lib sample_run_io
             \<lparr>run_server_name = ''calc'', test_suite = None\<rparr> empty_world)
       = Inr (setup_failure sample_lib sample_run_io
                (ToolCallError ''calc'' ''listTools''
                   (error_text sample_lib
                      (ToolCallError ''calc'' ''connect'' ''Server not found: calc''))))"
    using calc [THEN conjunct2, THEN conjunct2, THEN conjunct1, rule_format,
                of "ToolCallError ''calc'' ''connect'' ''Server not found: calc''"] c l
    by simp
  have t: "error_text sample_lib (ToolCallError ''calc'' ''connect'' ''Server not found: calc'')
       = ''Tool call failed: Server not found: calc''"
    by (simp add: sample_lib_def)
  show ?thesis
    unfolding rg rd sd rc t using g d c l by simp
qed

end
